theory Spec2Isabelle
  imports Complex_Main "HOL-Library.Word"
begin

section \<open>Numeric conventions\<close>

text \<open>
  The simulator computes on C++ \<open>double\<close> and \<open>float\<close> values. They are modelled by
  \<open>real\<close>: every arithmetic operation and every call into the C mathematics library
  (\<open>sin\<close>, \<open>cos\<close>, \<open>pow\<close>, \<open>sqrt\<close>, \<open>atan2\<close>) is its exact mathematical
  counterpart, and a literal stands for the decimal number that is written in the source.
  An Eigen vector is a \<open>real list\<close>. Fixed-width integer fields of the MAVLink messages
  are words.
\<close>

type_synonym vec = "real list"

subsection \<open>The atmosphere model of the sensor encoder\<close>

definition K_Pb :: real where "K_Pb = 101325"
definition K_Tb :: real where "K_Tb = 28815 / 100"
definition K_Lb :: real where "K_Lb = - (65 / 10000)"
definition K_M :: real where "K_M = 289644 / 10000000"
definition K_G :: real where "K_G = 980665 / 100000"
definition K_R :: real where "K_R = 831432 / 100000"

text \<open>\<open>M_E\<close> of \<open>cmath\<close>: Euler's number.\<close>

definition M_E :: real where "M_E = exp 1"

text \<open>
  \<open>DroneStateEncoder::alt_to_baro\<close>. The second branch calls the function itself at
  11000, which the first branch answers; \<open>std::pow\<close> is \<open>powr\<close> (every base
  that occurs is positive).
\<close>

function alt_to_baro :: "real \<Rightarrow> real" where
  "alt_to_baro alt =
     (if alt \<le> 11000 then
        K_Pb * (K_Tb / (K_Tb + (K_Lb * alt))) powr ((K_G * K_M) / (K_R * K_Lb))
      else if alt \<le> 20000 then
        (let f = 11000;
             a = alt_to_baro f;
             c = K_Tb + (f * K_Lb)
         in a * M_E powr (((- K_G) * K_M * (alt - f)) / (K_R * c)))
      else 0)"
  by pat_completeness auto
termination
  by (relation "measure (\<lambda>alt. if alt \<le> 11000 then 0 else 1)") auto

declare alt_to_baro.simps [simp del]

subsection \<open>Euler angles to quaternion\<close>

text \<open>
  \<open>DroneStateEncoder::euler_to_quaterions\<close>: reads \<open>euler_rpy[0..2]\<close> and writes
  \<open>quaternion[0..3]\<close>; the result is the four values written, in index order.
\<close>

definition euler_to_quaterions :: "vec \<Rightarrow> vec" where
  "euler_to_quaterions euler_rpy =
     (let roll = euler_rpy ! 0;
          pitch = euler_rpy ! 1;
          yaw = euler_rpy ! 2
      in [sin (roll / 2) * cos (pitch / 2) * cos (yaw / 2) - cos (roll / 2) * sin (pitch / 2) * sin (yaw / 2),
          cos (roll / 2) * sin (pitch / 2) * cos (yaw / 2) + sin (roll / 2) * cos (pitch / 2) * sin (yaw / 2),
          cos (roll / 2) * cos (pitch / 2) * sin (yaw / 2) - sin (roll / 2) * sin (pitch / 2) * cos (yaw / 2),
          cos (roll / 2) * cos (pitch / 2) * cos (yaw / 2) + sin (roll / 2) * sin (pitch / 2) * sin (yaw / 2)])"

subsection \<open>Conversions between floating point and integers\<close>

text \<open>
  A C++ conversion from floating point to an integer type drops the fraction (rounds
  towards zero). A value outside the range of the target type is undefined behaviour in
  C++; the model wraps it modulo the width, and no statement below relies on that.
  \<open>std::round\<close> rounds halves away from zero.
\<close>

definition cpp_trunc :: "real \<Rightarrow> int" where
  "cpp_trunc x = (if 0 \<le> x then \<lfloor>x\<rfloor> else \<lceil>x\<rceil>)"

definition to_int16 :: "real \<Rightarrow> 16 word" where
  "to_int16 x = word_of_int (cpp_trunc x)"

definition to_uint16 :: "real \<Rightarrow> 16 word" where
  "to_uint16 x = word_of_int (cpp_trunc x)"

definition to_int32 :: "real \<Rightarrow> 32 word" where
  "to_int32 x = word_of_int (cpp_trunc x)"

definition std_round :: "real \<Rightarrow> real" where
  "std_round x = (if 0 \<le> x then of_int \<lfloor>x + 1 / 2\<rfloor> else of_int \<lceil>x - 1 / 2\<rceil>)"

text \<open>\<open>atan2(y, x)\<close> of the C library, without signed zeros.\<close>

definition atan2 :: "real \<Rightarrow> real \<Rightarrow> real" where
  "atan2 y x =
     (if 0 < x then arctan (y / x)
      else if x < 0 \<and> 0 \<le> y then arctan (y / x) + pi
      else if x < 0 \<and> y < 0 then arctan (y / x) - pi
      else if 0 < y then pi / 2
      else if y < 0 then - (pi / 2)
      else 0)"

text \<open>Eigen: matrix times vector (a matrix is the list of its rows) and the 2-norm.\<close>

definition mat_vec :: "real list list \<Rightarrow> vec \<Rightarrow> vec" where
  "mat_vec m v = map (\<lambda>row. sum_list (map2 (*) row v)) m"

definition vec_norm :: "vec \<Rightarrow> real" where
  "vec_norm v = sqrt (sum_list (map (\<lambda>a. a * a) v))"

text \<open>\<open>v.segment(i, 3) = Eigen::VectorXd::Zero(3)\<close>.\<close>

definition segment_zero :: "vec \<Rightarrow> nat \<Rightarrow> vec" where
  "segment_zero v i = v[i := 0, i + 1 := 0, i + 2 := 0]"

section \<open>MAVLink frames\<close>

text \<open>
  Inbound frames, by message id, with the payload fields that the simulator decodes.
  \<open>OTHER\<close> is any message id that the dispatcher does not know.
\<close>

record hil_actuator_controls =
  hac_mode :: "8 word"
  hac_controls :: vec

record command_long =
  cl_command :: "16 word"
  cl_param1 :: real
  cl_param2 :: real
  cl_target_system :: "8 word"
  cl_target_component :: "8 word"

datatype mavlink_message =
    HEARTBEAT
  | HIL_ACTUATOR_CONTROLS hil_actuator_controls
  | COMMAND_LONG command_long
  | OTHER "32 word"

definition MAV_CMD_SET_MESSAGE_INTERVAL :: "16 word" where
  "MAV_CMD_SET_MESSAGE_INTERVAL = 511"

definition MAV_MODE_FLAG_SAFETY_ARMED :: "8 word" where
  "MAV_MODE_FLAG_SAFETY_ARMED = 128"

text \<open>
  Outbound frames: the arguments handed to the \<open>mavlink_msg_*_pack\<close> functions, named
  after the fields of the MAVLink messages, in the order of the pack call.
\<close>

record system_time =
  st_time_unix_usec :: "64 word"
  st_time_boot_ms :: "32 word"

record hil_gps =
  gps_time_usec :: "64 word"
  gps_fix_type :: "8 word"
  gps_lat :: "32 word"
  gps_lon :: "32 word"
  gps_alt :: "32 word"
  gps_eph :: "16 word"
  gps_epv :: "16 word"
  gps_vel :: "16 word"
  gps_vn :: "16 word"
  gps_ve :: "16 word"
  gps_vd :: "16 word"
  gps_cog :: "16 word"
  gps_satellites_visible :: "8 word"
  gps_id :: "8 word"
  gps_yaw :: "16 word"

record hil_sensor =
  hs_time_usec :: "64 word"
  hs_xacc :: real
  hs_yacc :: real
  hs_zacc :: real
  hs_xgyro :: real
  hs_ygyro :: real
  hs_zgyro :: real
  hs_xmag :: real
  hs_ymag :: real
  hs_zmag :: real
  hs_abs_pressure :: real
  hs_diff_pressure :: real
  hs_pressure_alt :: real
  hs_temperature :: real
  hs_fields_updated :: "32 word"
  hs_id :: "8 word"

record hil_state_quaternion =
  hsq_time_usec :: "64 word"
  hsq_attitude_quaternion :: vec
  hsq_rollspeed :: real
  hsq_pitchspeed :: real
  hsq_yawspeed :: real
  hsq_lat :: "32 word"
  hsq_lon :: "32 word"
  hsq_alt :: "32 word"
  hsq_vx :: "16 word"
  hsq_vy :: "16 word"
  hsq_vz :: "16 word"
  hsq_ind_airspeed :: "16 word"
  hsq_true_airspeed :: "16 word"
  hsq_xacc :: "16 word"
  hsq_yacc :: "16 word"
  hsq_zacc :: "16 word"

record command_ack =
  ack_command :: "16 word"
  ack_result :: "8 word"
  ack_progress :: "8 word"
  ack_result_param2 :: "32 word"
  ack_target_system :: "8 word"
  ack_target_component :: "8 word"

text \<open>A packed frame: system id, component id and the payload.\<close>

datatype frame =
    SYSTEM_TIME "8 word" "8 word" system_time
  | HIL_GPS "8 word" "8 word" hil_gps
  | HIL_SENSOR "8 word" "8 word" hil_sensor
  | HIL_STATE_QUATERNION "8 word" "8 word" hil_state_quaternion
  | COMMAND_ACK "8 word" "8 word" command_ack

section \<open>The drone\<close>

text \<open>
  Code that the simulator calls and that is not among the sources is a parameter of the
  model: the integrator behind \<open>DynamicObject::update\<close> (it reads the three
  controllers and advances \<open>state\<close> and \<open>dx_state\<close>), the readings of
  \<open>DroneSensors\<close>, the \<open>caelus_fdm\<close> helpers and the magnetic field table.
  Every theorem below holds for all values of these parameters.
\<close>

record collaborators =
  dynamic_update :: "vec \<times> vec \<times> vec \<Rightarrow> int \<Rightarrow> vec \<times> vec \<Rightarrow> vec \<times> vec"
  earth_frame_position :: "vec \<times> vec \<Rightarrow> vec"
  earth_frame_velocity :: "vec \<times> vec \<Rightarrow> vec"
  body_frame_acceleration :: "vec \<times> vec \<Rightarrow> vec"
  body2earth :: "vec \<Rightarrow> real list list"
  convertState2LlA :: "real \<Rightarrow> real \<Rightarrow> vec \<Rightarrow> real \<times> real \<times> real"
  magnetic_field_for_latlonalt :: "32 word list \<Rightarrow> vec"

text \<open>
  The members of \<open>Drone\<close> and of its bases that the functions below read or write,
  the relay (\<open>connection_open\<close>, and \<open>enqueued\<close>: the frames handed to
  \<open>enqueue_message\<close>, oldest first) and the clock. The members are declared in
  \<open>Drone.h\<close>, which is not among the sources: counters are natural numbers, times
  are microsecond counts, and \<open>hil_state_quaternion_message_frequency\<close> holds the
  number assigned to it. A controller holds the vector of its last \<open>set_control\<close>.
\<close>

record drone =
  state :: vec
  dx_state :: vec
  ground_height :: real
  thrust_propellers :: vec
  ailerons :: vec
  vtol_propellers :: vec
  armed :: bool
  should_reply_lockstep :: bool
  hil_actuator_controls_msg_n :: nat
  sys_time_throttle_counter :: nat
  last_autopilot_telemetry :: int
  hil_state_quaternion_message_frequency :: real
  message_queue :: "mavlink_message list"
  system_id :: "8 word"
  component_id :: "8 word"
  connection_open :: bool
  enqueued :: "frame list"
  clock_time_us :: int
  clock_unlocked :: bool
  wall_clock_us :: int

subsection \<open>The sensor encoder\<close>

definition G_FORCE :: real where "G_FORCE = 981 / 100"
definition INITIAL_LAT :: real where "INITIAL_LAT = 49766809 / 1000000"
definition INITIAL_LON :: real where "INITIAL_LON = - (75571598 / 10000000)"

definition get_sim_time :: "drone \<Rightarrow> 64 word" where
  "get_sim_time s = word_of_int (clock_time_us s)"

text \<open>\<open>Drone::get_environment_wind\<close> and \<open>Drone::get_temperature_reading\<close>.\<close>

definition get_environment_wind :: vec where
  "get_environment_wind = [0, 0, 0]"

definition get_temperature_reading :: real where
  "get_temperature_reading = 25"

definition get_attitude :: "drone \<Rightarrow> vec" where
  "get_attitude s = euler_to_quaterions [state s ! 6, state s ! 7, state s ! 8]"

definition get_rpy_speed :: "drone \<Rightarrow> vec" where
  "get_rpy_speed s = [state s ! 9, state s ! 10, state s ! 11]"

text \<open>
  \<open>get_ground_speed\<close>: each derivative is first converted to \<open>int16_t\<close> and then
  multiplied by 100 in place, so the product wraps at 16 bits.
\<close>

definition get_ground_speed :: "drone \<Rightarrow> 16 word list" where
  "get_ground_speed s =
     [to_int16 (dx_state s ! 0) * 100, to_int16 (dx_state s ! 1) * 100, to_int16 (dx_state s ! 2) * 100]"

definition get_body_frame_acceleration :: "drone \<Rightarrow> vec" where
  "get_body_frame_acceleration s =
     (let x_y_z = [dx_state s ! 3, dx_state s ! 4, dx_state s ! 5]
      in if x_y_z ! 2 < 1 / 10000 \<and> x_y_z ! 2 > - (1 / 10000) then x_y_z[2 := - G_FORCE] else x_y_z)"

definition get_earth_fixed_velocity :: "collaborators \<Rightarrow> drone \<Rightarrow> 16 word list" where
  "get_earth_fixed_velocity e s =
     (let xyz_dot_body_frame = [state s ! 3, state s ! 4, state s ! 5];
          earth_frame_velocity = mat_vec (body2earth e (state s)) xyz_dot_body_frame
      in [to_int16 (earth_frame_velocity ! 0), to_int16 (earth_frame_velocity ! 1),
          to_int16 (earth_frame_velocity ! 2)])"

definition get_lat_lon_alt :: "collaborators \<Rightarrow> drone \<Rightarrow> 32 word list" where
  "get_lat_lon_alt e s =
     (case convertState2LlA e INITIAL_LAT INITIAL_LON (state s) of
        (d_lat, d_lon, d_alt) \<Rightarrow>
          [to_int32 (d_lat * 10000000), to_int32 (d_lon * 10000000), to_int32 (d_alt * 1000)])"

text \<open>
  \<open>get_true_wind_speed\<close>; the argument \<open>wind\<close> is what the virtual
  \<open>get_environment_wind\<close> returns.
\<close>

definition get_true_wind_speed :: "vec \<Rightarrow> drone \<Rightarrow> 16 word" where
  "get_true_wind_speed wind s =
     (let ground_speed_vec = map (\<lambda>g. real_of_int (sint g)) (get_ground_speed s);
          environment_wind = map (\<lambda>w. w * 100) wind;
          cumulative_wind = map (\<lambda>c. c * (- 1)) (map2 (+) ground_speed_vec environment_wind);
          wind_magnitude = vec_norm cumulative_wind
      in to_uint16 wind_magnitude)"

definition get_course_over_ground :: "drone \<Rightarrow> 16 word" where
  "get_course_over_ground s =
     (let xyz_dot = [state s ! 3, state s ! 4, state s ! 5]
      in to_uint16 (((atan2 (xyz_dot ! 0) (xyz_dot ! 1) * 180) / pi) * 100))"

definition get_vehicle_yaw_wrt_earth_north :: "drone \<Rightarrow> 16 word" where
  "get_vehicle_yaw_wrt_earth_north s =
     (let yaw = to_uint16 (std_round ((((state s ! 8) * 180) / pi) * 100))
      in if yaw = 0 then yaw + 1 else yaw)"

definition hil_state_quaternion_msg :: "collaborators \<Rightarrow> drone \<Rightarrow> frame" where
  "hil_state_quaternion_msg e s =
     (let attitude = get_attitude s;
          rpy_speed = get_rpy_speed s;
          lat_lon_alt = get_lat_lon_alt e s;
          ground_speed = get_ground_speed s;
          f_acceleration = get_body_frame_acceleration s;
          true_wind_speed = get_true_wind_speed get_environment_wind s;
          acceleration = map (\<lambda>a. to_int16 (std_round ((a / G_FORCE) * 1000))) f_acceleration
      in HIL_STATE_QUATERNION (system_id s) (component_id s)
           \<lparr>hsq_time_usec = get_sim_time s,
            hsq_attitude_quaternion = attitude,
            hsq_rollspeed = rpy_speed ! 0,
            hsq_pitchspeed = rpy_speed ! 1,
            hsq_yawspeed = rpy_speed ! 2,
            hsq_lat = lat_lon_alt ! 0,
            hsq_lon = lat_lon_alt ! 1,
            hsq_alt = lat_lon_alt ! 2,
            hsq_vx = ground_speed ! 0,
            hsq_vy = ground_speed ! 1,
            hsq_vz = ground_speed ! 2,
            hsq_ind_airspeed = true_wind_speed,
            hsq_true_airspeed = true_wind_speed,
            hsq_xacc = acceleration ! 0,
            hsq_yacc = acceleration ! 1,
            hsq_zacc = acceleration ! 2\<rparr>)"

text \<open>
  \<open>hil_sensor_msg\<close>. The magnetic field vector is copied into three floats that start
  at zero; the bit mask of updated fields is \<open>0b111 | 0b111000 | 0b111000000 |
  0b1111000000000\<close>, that is 7 + 56 + 448 + 7680.
\<close>

definition hil_sensor_msg :: "collaborators \<Rightarrow> drone \<Rightarrow> frame" where
  "hil_sensor_msg e s =
     (let body_frame_acc = get_body_frame_acceleration s;
          gyro_xyz = get_rpy_speed s;
          lat_lon_alt = get_lat_lon_alt e s;
          abs_pressure = alt_to_baro (real_of_int (sint (lat_lon_alt ! 2)) / 1000) / 100;
          mag_field_vec = magnetic_field_for_latlonalt e lat_lon_alt;
          magfield = map (\<lambda>i. if i < length mag_field_vec then mag_field_vec ! i else 0) [0, 1, 2]
      in HIL_SENSOR (system_id s) (component_id s)
           \<lparr>hs_time_usec = get_sim_time s,
            hs_xacc = body_frame_acc ! 0,
            hs_yacc = body_frame_acc ! 1,
            hs_zacc = body_frame_acc ! 2,
            hs_xgyro = gyro_xyz ! 0,
            hs_ygyro = gyro_xyz ! 1,
            hs_zgyro = gyro_xyz ! 2,
            hs_xmag = magfield ! 0,
            hs_ymag = magfield ! 1,
            hs_zmag = magfield ! 2,
            hs_abs_pressure = abs_pressure,
            hs_diff_pressure = 0,
            hs_pressure_alt = real_of_int (sint (lat_lon_alt ! 2)),
            hs_temperature = get_temperature_reading,
            hs_fields_updated = 8191,
            hs_id = 0\<rparr>)"

text \<open>
  \<open>hil_gps_msg\<close>. The local \<open>course_over_ground\<close> is initialised to 0 and handed to
  the pack call; \<open>get_course_over_ground\<close> is not called. The ground speed array is
  declared \<open>uint16_t\<close> and filled through an \<open>int16_t\<close> pointer, so its elements
  are read back unsigned. Latitude and longitude are passed as slots 1 and 0.
\<close>

definition hil_gps_msg :: "collaborators \<Rightarrow> drone \<Rightarrow> frame" where
  "hil_gps_msg e s =
     (let course_over_ground = 0;
          sat_visible = 255;
          eph = to_uint16 ((3 / 10) * 100);
          epv = to_uint16 ((4 / 10) * 100);
          lon_lat_alt = get_lat_lon_alt e s;
          gps_velocity_ned = get_earth_fixed_velocity e s;
          vehicle_yaw = get_vehicle_yaw_wrt_earth_north s;
          ground_speed = get_ground_speed s;
          gps_ground_speed =
            to_uint16 (sqrt ((real (unat (ground_speed ! 0))) ^ 2 + (real (unat (ground_speed ! 1))) ^ 2))
      in HIL_GPS (system_id s) (component_id s)
           \<lparr>gps_time_usec = get_sim_time s,
            gps_fix_type = 3,
            gps_lat = lon_lat_alt ! 1,
            gps_lon = lon_lat_alt ! 0,
            gps_alt = lon_lat_alt ! 2,
            gps_eph = eph,
            gps_epv = epv,
            gps_vel = gps_ground_speed,
            gps_vn = gps_velocity_ned ! 0,
            gps_ve = gps_velocity_ned ! 1,
            gps_vd = gps_velocity_ned ! 2,
            gps_cog = course_over_ground,
            gps_satellites_visible = sat_visible,
            gps_id = 0,
            gps_yaw = vehicle_yaw\<rparr>)"

definition system_time_msg :: "drone \<Rightarrow> frame" where
  "system_time_msg s =
     (let time_unix_usec = word_of_int (wall_clock_us s);
          time_boot_ms = word_of_nat (unat (get_sim_time s) div 1000)
      in SYSTEM_TIME (system_id s) (component_id s)
           \<lparr>st_time_unix_usec = time_unix_usec, st_time_boot_ms = time_boot_ms\<rparr>)"

subsection \<open>The ground-contact corrector\<close>

text \<open>
  \<open>Drone::fake_ground_transform\<close>. The acceleration is
  \<open>body2earth(state) * get_body_frame_acceleration()\<close> of the sensors. The branch
  writes the literal 0 to \<open>state[2]\<close>, then the segments in the order of the source.
\<close>

definition fake_ground_transform :: "collaborators \<Rightarrow> int \<Rightarrow> drone \<Rightarrow> drone" where
  "fake_ground_transform e us s =
     (let dt = (real_of_int us / 1000) / 1000;
          position = earth_frame_position e (state s, dx_state s);
          velocity = earth_frame_velocity e (state s, dx_state s);
          acceleration = mat_vec (body2earth e (state s)) (body_frame_acceleration e (state s, dx_state s))
      in if position ! 2 \<ge> ground_height s - 1 / 1000 \<and> velocity ! 2 + acceleration ! 2 * dt \<ge> 0
         then
           (let s1 = s\<lparr>state := (state s)[2 := 0]\<rparr>;
                s2 = s1\<lparr>state := segment_zero (state s1) 3\<rparr>;
                s3 = s2\<lparr>dx_state := segment_zero (dx_state s2) 3\<rparr>;
                s4 = s3\<lparr>dx_state := (dx_state s3)[5 := G_FORCE]\<rparr>;
                s5 = s4\<lparr>state := segment_zero (state s4) 9\<rparr>
            in s5\<lparr>state := segment_zero (state s5) 6\<rparr>)
         else s)"

subsection \<open>The loop controller\<close>

definition enqueue_message :: "frame \<Rightarrow> drone \<Rightarrow> drone" where
  "enqueue_message f s = s\<lparr>enqueued := enqueued s @ [f]\<rparr>"

definition publish_hil_gps :: "collaborators \<Rightarrow> drone \<Rightarrow> drone" where
  "publish_hil_gps e s = enqueue_message (hil_gps_msg e s) s"

definition publish_system_time :: "drone \<Rightarrow> drone" where
  "publish_system_time s = enqueue_message (system_time_msg s) s"

definition publish_hil_sensor :: "collaborators \<Rightarrow> drone \<Rightarrow> drone" where
  "publish_hil_sensor e s = enqueue_message (hil_sensor_msg e s) s"

definition publish_hil_state_quaternion :: "collaborators \<Rightarrow> drone \<Rightarrow> drone" where
  "publish_hil_state_quaternion e s = enqueue_message (hil_state_quaternion_msg e s) s"

text \<open>
  \<open>Drone::_publish_state\<close>. The condition \<open>sys_time_throttle_counter++ % 1000\<close> is
  true when the value before the increment is not a multiple of 1000.
\<close>

definition publish_state :: "collaborators \<Rightarrow> drone \<Rightarrow> drone" where
  "publish_state e s =
     (if \<not> connection_open s then s
      else if \<not> (should_reply_lockstep s \<or> hil_actuator_controls_msg_n s < 300) then s
      else
        (let s1 = s\<lparr>clock_unlocked := True\<rparr>;
             c = sys_time_throttle_counter s1;
             s2 = s1\<lparr>sys_time_throttle_counter := c + 1\<rparr>;
             s3 = (if c mod 1000 \<noteq> 0 then publish_system_time s2 else s2);
             s4 = publish_hil_gps e s3;
             s5 = publish_hil_sensor e s4;
             s6 = s5\<lparr>should_reply_lockstep := False\<rparr>;
             should_send_autopilot_telemetry =
               (real_of_int (clock_time_us s6 - last_autopilot_telemetry s6)
                  > hil_state_quaternion_message_frequency s6)
         in if \<not> should_send_autopilot_telemetry then s6
            else publish_hil_state_quaternion e (s6\<lparr>last_autopilot_telemetry := clock_time_us s6\<rparr>)))"

text \<open>
  \<open>Drone::_process_command_long_message\<close>, in the two variants of the sources: the
  drone with the ground corrector takes the interval from \<open>param2\<close>, the drone
  without it from \<open>param1\<close>. Both pack the acknowledgement with result 0, progress 0
  and result parameter 0.
\<close>

definition command_ack_msg :: "drone \<Rightarrow> command_long \<Rightarrow> frame" where
  "command_ack_msg s command =
     COMMAND_ACK (system_id s) (component_id s)
       \<lparr>ack_command = cl_command command, ack_result = 0, ack_progress = 0, ack_result_param2 = 0,
        ack_target_system = cl_target_system command,
        ack_target_component = cl_target_component command\<rparr>"

definition process_command_long_message :: "command_long \<Rightarrow> drone \<Rightarrow> drone" where
  "process_command_long_message command s =
     (let command_id = cl_command command;
          s1 = (if command_id = MAV_CMD_SET_MESSAGE_INTERVAL
                then s\<lparr>hil_state_quaternion_message_frequency := cl_param2 command\<rparr>
                else s)
      in enqueue_message (command_ack_msg s1 command) s1)"

definition process_command_long_message_no_corrector :: "command_long \<Rightarrow> drone \<Rightarrow> drone" where
  "process_command_long_message_no_corrector command s =
     (let command_id = cl_command command;
          s1 = (if command_id = MAV_CMD_SET_MESSAGE_INTERVAL
                then s\<lparr>hil_state_quaternion_message_frequency := cl_param1 command\<rparr>
                else s)
      in enqueue_message (command_ack_msg s1 command) s1)"

text \<open>
  \<open>Drone::_process_hil_actuator_controls\<close>: channels 0..3 go to the VTOL propellers,
  4..5 to the ailerons and 8 to the thrust propeller.
\<close>

definition process_hil_actuator_controls :: "hil_actuator_controls \<Rightarrow> drone \<Rightarrow> drone" where
  "process_hil_actuator_controls controls s =
     (let s1 = s\<lparr>should_reply_lockstep := True\<rparr>;
          s2 = s1\<lparr>hil_actuator_controls_msg_n := hil_actuator_controls_msg_n s1 + 1\<rparr>;
          s3 = s2\<lparr>armed := (and (hac_mode controls) MAV_MODE_FLAG_SAFETY_ARMED > 0)\<rparr>;
          vtol_prop_controls = map (\<lambda>i. hac_controls controls ! i) [0, 1, 2, 3];
          ailerons_controls = map (\<lambda>i. hac_controls controls ! (4 + i)) [0, 1];
          thrust_propeller_controls = map (\<lambda>i. hac_controls controls ! (8 + i)) [0]
      in s3\<lparr>thrust_propellers := thrust_propeller_controls,
            ailerons := ailerons_controls,
            vtol_propellers := vtol_prop_controls\<rparr>)"

fun process_mavlink_message :: "mavlink_message \<Rightarrow> drone \<Rightarrow> drone" where
  "process_mavlink_message HEARTBEAT s = s"
| "process_mavlink_message (HIL_ACTUATOR_CONTROLS controls) s = process_hil_actuator_controls controls s"
| "process_mavlink_message (COMMAND_LONG command) s = process_command_long_message command s"
| "process_mavlink_message (OTHER msgid) s = s"

text \<open>
  \<open>message_queue.consume_all\<close> hands the queued frames to the handler, oldest first,
  and leaves the queue empty.
\<close>

fun consume_all :: "mavlink_message list \<Rightarrow> drone \<Rightarrow> drone" where
  "consume_all [] s = s"
| "consume_all (m # ms) s = consume_all ms (process_mavlink_message m s)"

definition process_mavlink_messages :: "drone \<Rightarrow> drone" where
  "process_mavlink_messages s = consume_all (message_queue s) (s\<lparr>message_queue := []\<rparr>)"

definition handle_mavlink_message :: "mavlink_message \<Rightarrow> drone \<Rightarrow> drone" where
  "handle_mavlink_message m s = s\<lparr>message_queue := message_queue s @ [m]\<rparr>"

text \<open>
  \<open>DynamicObject::update\<close>: the integrator, with the controllers it was given in
  \<open>_setup_drone\<close>. \<open>MAVLinkSystem::update\<close> is not among the sources and touches
  none of the members above.
\<close>

definition DynamicObject_update :: "collaborators \<Rightarrow> int \<Rightarrow> drone \<Rightarrow> drone" where
  "DynamicObject_update e us s =
     (case dynamic_update e (thrust_propellers s, ailerons s, vtol_propellers s) us (state s, dx_state s) of
        (x, dx) \<Rightarrow> s\<lparr>state := x, dx_state := dx\<rparr>)"

text \<open>\<open>Drone::update\<close> of the drone with the ground corrector.\<close>

definition update :: "collaborators \<Rightarrow> int \<Rightarrow> drone \<Rightarrow> drone" where
  "update e us s =
     (let s1 = DynamicObject_update e us s;
          s2 = fake_ground_transform e us s1;
          s3 = process_mavlink_messages s2
      in publish_state e s3)"

section \<open>Statements of the specification, for comparison\<close>

text \<open>
  The quaternion of the specification (section 4.6), written from its four formulas:
  \<open>(q_x, q_y, q_z, q_w)\<close> for roll \<open>\<phi>\<close>, pitch \<open>\<theta>\<close> and yaw \<open>\<psi>\<close>.
\<close>

definition zyx_quaternion :: "real \<Rightarrow> real \<Rightarrow> real \<Rightarrow> real \<times> real \<times> real \<times> real" where
  "zyx_quaternion \<phi> \<theta> \<psi> =
     (sin (\<phi> / 2) * cos (\<theta> / 2) * cos (\<psi> / 2) - cos (\<phi> / 2) * sin (\<theta> / 2) * sin (\<psi> / 2),
      cos (\<phi> / 2) * sin (\<theta> / 2) * cos (\<psi> / 2) + sin (\<phi> / 2) * cos (\<theta> / 2) * sin (\<psi> / 2),
      cos (\<phi> / 2) * cos (\<theta> / 2) * sin (\<psi> / 2) - sin (\<phi> / 2) * sin (\<theta> / 2) * cos (\<psi> / 2),
      cos (\<phi> / 2) * cos (\<theta> / 2) * cos (\<psi> / 2) + sin (\<phi> / 2) * sin (\<theta> / 2) * sin (\<psi> / 2))"

section \<open>Ticks and frames\<close>

text \<open>
  Notions used to state the properties of the loop: the kinds of frames, the lockstep
  gate of \<open>_publish_state\<close>, the acknowledgements owed to a list of inbound frames, and
  a tick: between two calls of \<open>update\<close> the clock moves, the relay opens or closes
  and the relay's thread hands frames to \<open>handle_mavlink_message\<close>.
\<close>

definition is_telemetry :: "frame \<Rightarrow> bool" where
  "is_telemetry f = (case f of COMMAND_ACK sid cid p \<Rightarrow> False | _ \<Rightarrow> True)"

definition is_system_time :: "frame \<Rightarrow> bool" where
  "is_system_time f = (case f of SYSTEM_TIME sid cid p \<Rightarrow> True | _ \<Rightarrow> False)"



definition lockstep_gate :: "drone \<Rightarrow> bool" where
  "lockstep_gate s = (should_reply_lockstep s \<or> hil_actuator_controls_msg_n s < 300)"

fun command_acks :: "drone \<Rightarrow> mavlink_message list \<Rightarrow> frame list" where
  "command_acks s [] = []"
| "command_acks s (COMMAND_LONG c # ms) = command_ack_msg s c # command_acks s ms"
| "command_acks s (m # ms) = command_acks s ms"

record tick_input =
  ti_us :: int
  ti_now :: int
  ti_open :: bool
  ti_arrived :: "mavlink_message list"

definition arrive :: "tick_input \<Rightarrow> drone \<Rightarrow> drone" where
  "arrive i s = foldl (\<lambda>s m. handle_mavlink_message m s)
                  (s\<lparr>clock_time_us := ti_now i, connection_open := ti_open i\<rparr>) (ti_arrived i)"




text \<open>The drone as \<open>_publish_state\<close> finds it in a tick: after the drain.\<close>

definition at_gate :: "collaborators \<Rightarrow> tick_input \<Rightarrow> drone \<Rightarrow> drone" where
  "at_gate e i s =
     process_mavlink_messages (fake_ground_transform e (ti_us i) (DynamicObject_update e (ti_us i) (arrive i s)))"

section \<open>Concrete inputs\<close>

text \<open>
  Values for the parameters and states at which the model is evaluated.
  \<open>still_world\<close>: an integrator that leaves the state where it is, sensors that read
  position, velocity and acceleration off the state vectors, no rotation.
  \<open>probe_world\<close>: the same, but the integrator stores the thrust command it samples
  in \<open>x[0]\<close>. \<open>drone0\<close>: the drone at rest at the origin, relay open.
\<close>

definition still_world :: collaborators where
  "still_world =
     \<lparr>dynamic_update = (\<lambda>controls us xd. xd),
      earth_frame_position = (\<lambda>xd. take 3 (fst xd)),
      earth_frame_velocity = (\<lambda>xd. take 3 (snd xd)),
      body_frame_acceleration = (\<lambda>xd. take 3 (drop 3 (snd xd))),
      body2earth = (\<lambda>x. [[1, 0, 0], [0, 1, 0], [0, 0, 1]]),
      convertState2LlA = (\<lambda>lat lon x. (lat, lon, - (x ! 2))),
      magnetic_field_for_latlonalt = (\<lambda>lla. [0, 0, 0])\<rparr>"

definition probe_world :: collaborators where
  "probe_world = still_world\<lparr>dynamic_update := (\<lambda>controls us xd. ((fst xd)[0 := fst controls ! 0], snd xd))\<rparr>"

definition drone0 :: drone where
  "drone0 =
     \<lparr>state = [0, 0, 0, 0, 0, 0, 0, 0, 0, 0, 0, 0],
      dx_state = [0, 0, 0, 0, 0, 0, 0, 0, 0, 0, 0, 0],
      ground_height = 0,
      thrust_propellers = [0],
      ailerons = [0, 0],
      vtol_propellers = [0, 0, 0, 0],
      armed = False,
      should_reply_lockstep = False,
      hil_actuator_controls_msg_n = 0,
      sys_time_throttle_counter = 0,
      last_autopilot_telemetry = 0,
      hil_state_quaternion_message_frequency = 1000000,
      message_queue = [],
      system_id = 1,
      component_id = 1,
      connection_open = True,
      enqueued = [],
      clock_time_us = 0,
      clock_unlocked = False,
      wall_clock_us = 0\<rparr>"

definition sunk_runway_drone :: drone where
  "sunk_runway_drone = drone0\<lparr>ground_height := 10, state := [0, 0, 10, 0, 0, 0, 0, 0, 0, 0, 0, 0]\<rparr>"

definition moving_drone :: drone where
  "moving_drone = drone0\<lparr>state := [0, 0, 0, 1, 0, 0, 0, 0, 0, 0, 0, 0]\<rparr>"


definition set_interval_50000 :: command_long where
  "set_interval_50000 =
     \<lparr>cl_command = MAV_CMD_SET_MESSAGE_INTERVAL, cl_param1 = 115, cl_param2 = 50000,
      cl_target_system = 1, cl_target_component = 1\<rparr>"

definition full_thrust :: hil_actuator_controls where
  "full_thrust = \<lparr>hac_mode = 0, hac_controls = [0, 0, 0, 0, 0, 0, 0, 0, 1, 0, 0, 0, 0, 0, 0, 0]\<rparr>"


definition commanded_drone :: drone where
  "commanded_drone = drone0\<lparr>message_queue := [HIL_ACTUATOR_CONTROLS full_thrust]\<rparr>"

definition closed_relay_drone :: drone where
  "closed_relay_drone = drone0\<lparr>connection_open := False, message_queue := [COMMAND_LONG set_interval_50000]\<rparr>"

text \<open>
  The tick in the order of the specification (section 5): drain the inbound queue,
  integrate, correct, publish.
\<close>

definition update_spec_order :: "collaborators \<Rightarrow> int \<Rightarrow> drone \<Rightarrow> drone" where
  "update_spec_order e us s =
     (let s1 = process_mavlink_messages s;
          s2 = DynamicObject_update e us s1;
          s3 = fake_ground_transform e us s2
      in publish_state e s3)"



section \<open>The sensor encoder: quaternion, pressure, wind speed\<close>

text \<open>
  C7. For every triple of Euler angles (roll, pitch, yaw) the quaternion written by
  \<open>euler_to_quaterions\<close> is, slot by slot, the quaternion \<open>(q_x, q_y, q_z, q_w)\<close> of
  the ZYX formulas of the specification, and the angles (0, 0, 0) give (0, 0, 0, 1).
\<close>

theorem euler_to_quaterions_zyx:
  "(case zyx_quaternion roll pitch yaw of
      (q_x, q_y, q_z, q_w) \<Rightarrow> euler_to_quaterions [roll, pitch, yaw] = [q_x, q_y, q_z, q_w])
   \<and> euler_to_quaterions [0, 0, 0] = [0, 0, 0, 1]"
  by (simp add: zyx_quaternion_def euler_to_quaterions_def)

subsection \<open>Bounds on the exponential function by its Taylor polynomials\<close>

lemma exp_lower_sum:
  fixes x :: real
  assumes "0 \<le> x"
  shows "(\<Sum>m<n. x ^ m / fact m) \<le> exp x"
proof -
  obtain t where "exp x = (\<Sum>m<n. x ^ m / fact m) + (exp t / fact n) * x ^ n"
    using Maclaurin_exp_le [of x n] by blast
  moreover have "0 \<le> (exp t / fact n) * x ^ n"
    using assms by simp
  ultimately show ?thesis by linarith
qed

lemma exp_upper_sum:
  fixes x :: real
  assumes "0 \<le> x" "x \<le> 2"
  shows "exp x \<le> (\<Sum>m<n. x ^ m / fact m) + 9 * x ^ n / fact n"
proof -
  obtain t where t: "\<bar>t\<bar> \<le> \<bar>x\<bar>"
    and e: "exp x = (\<Sum>m<n. x ^ m / fact m) + (exp t / fact n) * x ^ n"
    using Maclaurin_exp_le [of x n] by blast
  have "t \<le> 2" using t assms by linarith
  then have "exp t \<le> exp (2::real)" by simp
  also have "exp (2::real) = exp 1 * exp 1" by (simp flip: exp_add)
  also have "\<dots> \<le> 3 * 3" using exp_le by (intro mult_mono) simp_all
  finally have "exp t \<le> 9" by simp
  then have "(exp t / fact n) * x ^ n \<le> (9 / fact n) * x ^ n"
    using assms by (intro mult_right_mono divide_right_mono) simp_all
  with e show ?thesis by simp
qed

lemma ln_ratio_lower: "(285197 / 1000000 :: real) \<le> ln (28815 / 21665)"
proof -
  have "exp (285197 / 1000000 :: real) \<le> (\<Sum>m<8. (285197 / 1000000) ^ m / fact m) + 9 * (285197 / 1000000) ^ 8 / fact 8"
    by (rule exp_upper_sum) simp_all
  also have "\<dots> \<le> 28815 / 21665"
    by (simp add: lessThan_nat_numeral lessThan_Suc fact_numeral power_divide)
  finally have h: "exp (285197 / 1000000 :: real) \<le> 28815 / 21665" .
  have pos: "(0::real) < 28815 / 21665" by simp
  from ln_ge_iff [OF pos] h show ?thesis by blast
qed

lemma ln_ratio_upper: "ln (28815 / 21665) \<le> (285199 / 1000000 :: real)"
proof -
  have "(28815 / 21665 :: real) \<le> (\<Sum>m<8. (285199 / 1000000) ^ m / fact m)"
    by (simp add: lessThan_nat_numeral lessThan_Suc fact_numeral power_divide)
  also have "\<dots> \<le> exp (285199 / 1000000)"
    by (rule exp_lower_sum) simp
  finally have h: "(28815 / 21665 :: real) \<le> exp (285199 / 1000000)" .
  have "ln (28815 / 21665 :: real) \<le> ln (exp (285199 / 1000000))"
    by (rule ln_mono [OF h]) simp
  then show ?thesis by simp
qed

lemma exp_t1_lower: "(101325 / 22633 :: real) \<le> exp (149895 / 100000)"
proof -
  have "(101325 / 22633 :: real) \<le> (\<Sum>m<14. (149895 / 100000) ^ m / fact m)"
    by (simp add: lessThan_nat_numeral lessThan_Suc fact_numeral power_divide)
  also have "\<dots> \<le> exp (149895 / 100000)"
    by (rule exp_lower_sum) simp
  finally show ?thesis .
qed

lemma exp_t2_upper: "exp (149898 / 100000) \<le> (101325 / 22631 :: real)"
proof -
  have "exp (149898 / 100000 :: real) \<le> (\<Sum>m<14. (149898 / 100000) ^ m / fact m) + 9 * (149898 / 100000) ^ 14 / fact 14"
    by (rule exp_upper_sum) simp_all
  also have "\<dots> \<le> 101325 / 22631"
    by (simp add: lessThan_nat_numeral lessThan_Suc fact_numeral power_divide)
  finally show ?thesis .
qed

lemma isa_exponent: "(K_G * K_M) / (K_R * K_Lb) = - (676294603 / 128674000)"
  by (simp add: K_G_def K_M_def K_R_def K_Lb_def)

lemma isa_base_11000: "K_Tb / (K_Tb + (K_Lb * 11000)) = 28815 / 21665"
  by (simp add: K_Tb_def K_Lb_def)

lemma alt_to_baro_11000_eq:
  "alt_to_baro 11000 = 101325 * exp (- ((676294603 / 128674000) * ln (28815 / 21665)))"
  by (simp add: alt_to_baro.simps isa_exponent isa_base_11000 K_Pb_def powr_def)

lemma alt_to_baro_11000_bounds: "22631 \<le> alt_to_baro 11000 \<and> alt_to_baro 11000 \<le> 22633"
proof -
  define t :: real where "t = (676294603 / 128674000) * ln (28815 / 21665)"
  have lo: "149895 / 100000 \<le> t"
  proof -
    have "(149895 / 100000 :: real) \<le> (676294603 / 128674000) * (285197 / 1000000)" by simp
    also have "\<dots> \<le> t" unfolding t_def
      by (rule mult_left_mono [OF ln_ratio_lower]) simp
    finally show ?thesis .
  qed
  have hi: "t \<le> 149898 / 100000"
  proof -
    have "t \<le> (676294603 / 128674000) * (285199 / 1000000)" unfolding t_def
      by (rule mult_left_mono [OF ln_ratio_upper]) simp
    also have "\<dots> \<le> 149898 / 100000" by simp
    finally show ?thesis .
  qed
  have e1: "101325 / 22633 \<le> exp t"
    using exp_t1_lower lo by (meson exp_le_cancel_iff order_trans)
  have e2: "exp t \<le> 101325 / 22631"
    using exp_t2_upper hi by (meson exp_le_cancel_iff order_trans)
  have v: "alt_to_baro 11000 = 101325 / exp t"
    by (simp add: alt_to_baro_11000_eq t_def exp_minus field_simps)
  have p: "0 < exp t" by simp
  from e1 p have "101325 / exp t \<le> 22633" by (simp add: field_simps)
  moreover from e2 p have "22631 \<le> 101325 / exp t" by (simp add: field_simps)
  ultimately show ?thesis by (simp add: v)
qed

lemma alt_to_baro_low: "alt \<le> 11000 \<Longrightarrow>
  alt_to_baro alt = 101325 * ((28815 / 100) / (28815 / 100 + (- (65 / 10000)) * alt))
       powr ((980665 / 100000 * (289644 / 10000000)) / (831432 / 100000 * (- (65 / 10000))))"
  by (simp add: alt_to_baro.simps K_Pb_def K_Tb_def K_Lb_def K_G_def K_M_def K_R_def)

lemma alt_to_baro_mid: "11000 < alt \<Longrightarrow> alt \<le> 20000 \<Longrightarrow>
  alt_to_baro alt = alt_to_baro 11000 *
     exp (- (980665 / 100000) * (289644 / 10000000) * (alt - 11000)
          / (831432 / 100000 * (28815 / 100 + 11000 * (- (65 / 10000)))))"
  by (subst alt_to_baro.simps) (simp add: Let_def M_E_def powr_def K_Tb_def K_Lb_def K_G_def K_M_def K_R_def)

lemma alt_to_baro_high: "20000 < alt \<Longrightarrow> alt_to_baro alt = 0"
  by (simp add: alt_to_baro.simps)

lemma alt_to_baro_0: "alt_to_baro 0 = 101325"
  by (simp add: alt_to_baro.simps K_Pb_def K_Tb_def)

text \<open>
  C8. \<open>alt_to_baro\<close> is the piecewise formula of the standard atmosphere: up to
  11000 m the power law with \<open>P_b = 101325\<close>, \<open>T_b = 288.15\<close>, \<open>L_b = -0.0065\<close>,
  \<open>g = 9.80665\<close>, \<open>M = 0.0289644\<close> and \<open>R = 8.31432\<close>; at altitude 0 exactly
  101325 Pa; at 11000 m within 1 Pa of 22632 Pa; above 11000 m and up to 20000 m the
  value at 11000 m times the exponential decay from there; above 20000 m zero.
\<close>

theorem alt_to_baro_piecewise:
  "alt_to_baro 0 = 101325
   \<and> \<bar>alt_to_baro 11000 - 22632\<bar> \<le> 1
   \<and> (\<forall>alt. alt \<le> 11000 \<longrightarrow>
         alt_to_baro alt = 101325 * ((28815 / 100) / (28815 / 100 + (- (65 / 10000)) * alt))
           powr ((980665 / 100000 * (289644 / 10000000)) / (831432 / 100000 * (- (65 / 10000)))))
   \<and> (\<forall>alt. 11000 < alt \<and> alt \<le> 20000 \<longrightarrow>
         alt_to_baro alt = alt_to_baro 11000 *
           exp (- (980665 / 100000) * (289644 / 10000000) * (alt - 11000)
                / (831432 / 100000 * (28815 / 100 + 11000 * (- (65 / 10000))))))
   \<and> (\<forall>alt. 20000 < alt \<longrightarrow> alt_to_baro alt = 0)"
proof -
  have "\<bar>alt_to_baro 11000 - 22632\<bar> \<le> 1"
    using alt_to_baro_11000_bounds by (simp add: abs_le_iff)
  then show ?thesis
    using alt_to_baro_0 alt_to_baro_low alt_to_baro_mid alt_to_baro_high by blast
qed

theorem alt_to_baro_piecewise_witness:
  "(5000::real) \<le> 11000 \<and> (11000::real) < 15000 \<and> (15000::real) \<le> 20000 \<and> (20000::real) < 25000
   \<and> alt_to_baro 5000 = 101325 * ((28815 / 100) / (28815 / 100 + (- (65 / 10000)) * 5000))
           powr ((980665 / 100000 * (289644 / 10000000)) / (831432 / 100000 * (- (65 / 10000))))
   \<and> alt_to_baro 15000 = alt_to_baro 11000 *
           exp (- (980665 / 100000) * (289644 / 10000000) * (15000 - 11000)
                / (831432 / 100000 * (28815 / 100 + 11000 * (- (65 / 10000)))))
   \<and> alt_to_baro 25000 = 0"
proof -
  have a: "(5000::real) \<le> 11000" and b: "(11000::real) < 15000 \<and> (15000::real) \<le> 20000"
    and c: "(20000::real) < 25000" by simp_all
  from alt_to_baro_piecewise a b c show ?thesis by blast
qed








section \<open>The loop controller\<close>

subsection \<open>What each step leaves alone\<close>

lemma DynamicObject_update_other [simp]:
  "enqueued (DynamicObject_update e us s) = enqueued s"
  "connection_open (DynamicObject_update e us s) = connection_open s"
  "message_queue (DynamicObject_update e us s) = message_queue s"
  "hil_actuator_controls_msg_n (DynamicObject_update e us s) = hil_actuator_controls_msg_n s"
  "should_reply_lockstep (DynamicObject_update e us s) = should_reply_lockstep s"
  "system_id (DynamicObject_update e us s) = system_id s"
  "component_id (DynamicObject_update e us s) = component_id s"
  "thrust_propellers (DynamicObject_update e us s) = thrust_propellers s"
  "ailerons (DynamicObject_update e us s) = ailerons s"
  "vtol_propellers (DynamicObject_update e us s) = vtol_propellers s"
  by (simp_all add: DynamicObject_update_def split: prod.split)

lemma fake_ground_transform_other [simp]:
  "enqueued (fake_ground_transform e us s) = enqueued s"
  "connection_open (fake_ground_transform e us s) = connection_open s"
  "message_queue (fake_ground_transform e us s) = message_queue s"
  "hil_actuator_controls_msg_n (fake_ground_transform e us s) = hil_actuator_controls_msg_n s"
  "should_reply_lockstep (fake_ground_transform e us s) = should_reply_lockstep s"
  "system_id (fake_ground_transform e us s) = system_id s"
  "component_id (fake_ground_transform e us s) = component_id s"
  "thrust_propellers (fake_ground_transform e us s) = thrust_propellers s"
  "ailerons (fake_ground_transform e us s) = ailerons s"
  "vtol_propellers (fake_ground_transform e us s) = vtol_propellers s"
  by (simp_all add: fake_ground_transform_def Let_def)

lemma command_ack_msg_cong:
  "system_id s' = system_id s \<Longrightarrow> component_id s' = component_id s \<Longrightarrow>
   command_ack_msg s' c = command_ack_msg s c"
  by (simp add: command_ack_msg_def)

lemma command_acks_cong:
  "system_id s' = system_id s \<Longrightarrow> component_id s' = component_id s \<Longrightarrow>
   command_acks s' ms = command_acks s ms"
  by (induction s ms rule: command_acks.induct) (simp_all add: command_ack_msg_def)

lemma process_mavlink_message_system_id [simp]:
  "system_id (process_mavlink_message m s) = system_id s"
  by (cases m) (simp_all add: process_hil_actuator_controls_def process_command_long_message_def
        enqueue_message_def Let_def)

lemma process_mavlink_message_component_id [simp]:
  "component_id (process_mavlink_message m s) = component_id s"
  by (cases m) (simp_all add: process_hil_actuator_controls_def process_command_long_message_def
        enqueue_message_def Let_def)

lemma process_mavlink_message_connection_open [simp]:
  "connection_open (process_mavlink_message m s) = connection_open s"
  by (cases m) (simp_all add: process_hil_actuator_controls_def process_command_long_message_def
        enqueue_message_def Let_def)

lemma process_mavlink_message_state [simp]:
  "state (process_mavlink_message m s) = state s"
  by (cases m) (simp_all add: process_hil_actuator_controls_def process_command_long_message_def
        enqueue_message_def Let_def)

lemma process_mavlink_message_dx_state [simp]:
  "dx_state (process_mavlink_message m s) = dx_state s"
  by (cases m) (simp_all add: process_hil_actuator_controls_def process_command_long_message_def
        enqueue_message_def Let_def)

lemma process_mavlink_message_message_queue [simp]:
  "message_queue (process_mavlink_message m s) = message_queue s"
  by (cases m) (simp_all add: process_hil_actuator_controls_def process_command_long_message_def
        enqueue_message_def Let_def)

lemma process_mavlink_message_enqueued:
  "enqueued (process_mavlink_message m s) = enqueued s @ command_acks s [m]"
  by (cases m) (simp_all add: process_hil_actuator_controls_def process_command_long_message_def
        enqueue_message_def Let_def command_ack_msg_def)

lemma consume_all_system_id [simp]:
  "system_id (consume_all ms s) = system_id s"
  by (induction ms arbitrary: s) simp_all

lemma consume_all_component_id [simp]:
  "component_id (consume_all ms s) = component_id s"
  by (induction ms arbitrary: s) simp_all

lemma consume_all_connection_open [simp]:
  "connection_open (consume_all ms s) = connection_open s"
  by (induction ms arbitrary: s) simp_all

lemma consume_all_state [simp]:
  "state (consume_all ms s) = state s"
  by (induction ms arbitrary: s) simp_all

lemma consume_all_dx_state [simp]:
  "dx_state (consume_all ms s) = dx_state s"
  by (induction ms arbitrary: s) simp_all

lemma consume_all_message_queue [simp]:
  "message_queue (consume_all ms s) = message_queue s"
  by (induction ms arbitrary: s) simp_all

lemma command_acks_Cons: "command_acks s (m # ms) = command_acks s [m] @ command_acks s ms"
  by (cases m) simp_all

lemma consume_all_enqueued:
  "enqueued (consume_all ms s) = enqueued s @ command_acks s ms"
proof (induction ms arbitrary: s)
  case Nil
  show ?case by simp
next
  case (Cons m ms)
  have "command_acks (process_mavlink_message m s) ms = command_acks s ms"
    by (rule command_acks_cong) simp_all
  with Cons show ?case
    by (simp add: process_mavlink_message_enqueued command_acks_Cons [of s m ms])
qed

lemma command_acks_no_telemetry: "\<not> list_ex is_telemetry (command_acks s ms)"
  by (induction s ms rule: command_acks.induct) (simp_all add: is_telemetry_def command_ack_msg_def)



lemma process_mavlink_messages_simps [simp]:
  "system_id (process_mavlink_messages s) = system_id s"
  "component_id (process_mavlink_messages s) = component_id s"
  "connection_open (process_mavlink_messages s) = connection_open s"
  "state (process_mavlink_messages s) = state s"
  "dx_state (process_mavlink_messages s) = dx_state s"
  "message_queue (process_mavlink_messages s) = []"
  by (simp_all add: process_mavlink_messages_def)

lemma process_mavlink_messages_enqueued:
  "enqueued (process_mavlink_messages s) = enqueued s @ command_acks s (message_queue s)"
proof -
  have "command_acks (s\<lparr>message_queue := []\<rparr>) (message_queue s) = command_acks s (message_queue s)"
    by (rule command_acks_cong) simp_all
  then show ?thesis by (simp add: process_mavlink_messages_def consume_all_enqueued)
qed


lemma hil_gps_msg_shape: "\<exists>p. hil_gps_msg e s = HIL_GPS (system_id s) (component_id s) p \<and> gps_cog p = 0"
  by (simp add: hil_gps_msg_def Let_def)

lemma hil_sensor_msg_shape: "\<exists>p. hil_sensor_msg e s = HIL_SENSOR (system_id s) (component_id s) p"
  by (simp add: hil_sensor_msg_def Let_def)

lemma hil_state_quaternion_msg_shape:
  "\<exists>p. hil_state_quaternion_msg e s = HIL_STATE_QUATERNION (system_id s) (component_id s) p"
  by (simp add: hil_state_quaternion_msg_def Let_def)

lemma system_time_msg_shape: "\<exists>p. system_time_msg s = SYSTEM_TIME (system_id s) (component_id s) p"
  by (simp add: system_time_msg_def Let_def)

lemma frame_kinds [simp]:
  "is_telemetry (hil_gps_msg e s)" "\<not> is_system_time (hil_gps_msg e s)"
  "is_telemetry (hil_sensor_msg e s)" "\<not> is_system_time (hil_sensor_msg e s)"
  "is_telemetry (hil_state_quaternion_msg e s)" "\<not> is_system_time (hil_state_quaternion_msg e s)"
  "is_telemetry (system_time_msg s)" "is_system_time (system_time_msg s)"
  using hil_gps_msg_shape [of e s] hil_sensor_msg_shape [of e s]
    hil_state_quaternion_msg_shape [of e s] system_time_msg_shape [of s]
  by (auto simp: is_telemetry_def is_system_time_def)


lemma publish_state_other [simp]:
  "state (publish_state e s) = state s"
  "dx_state (publish_state e s) = dx_state s"
  "connection_open (publish_state e s) = connection_open s"
  "message_queue (publish_state e s) = message_queue s"
  "hil_actuator_controls_msg_n (publish_state e s) = hil_actuator_controls_msg_n s"
  "system_id (publish_state e s) = system_id s"
  "component_id (publish_state e s) = component_id s"
  "thrust_propellers (publish_state e s) = thrust_propellers s"
  "ailerons (publish_state e s) = ailerons s"
  "vtol_propellers (publish_state e s) = vtol_propellers s"
  by (simp_all add: publish_state_def Let_def publish_system_time_def publish_hil_gps_def
        publish_hil_sensor_def publish_hil_state_quaternion_def enqueue_message_def)

lemma publish_state_closed_gate:
  "\<not> (connection_open s \<and> lockstep_gate s) \<Longrightarrow> publish_state e s = s"
  by (auto simp: publish_state_def lockstep_gate_def)

lemma publish_state_open_gate:
  assumes "connection_open s" "lockstep_gate s"
  shows "\<exists>fs. enqueued (publish_state e s) = enqueued s @ fs \<and> list_ex is_telemetry fs
           \<and> list_ex is_system_time fs = (sys_time_throttle_counter s mod 1000 \<noteq> 0)"
  using assms
  by (simp add: publish_state_def lockstep_gate_def Let_def publish_system_time_def publish_hil_gps_def
        publish_hil_sensor_def publish_hil_state_quaternion_def enqueue_message_def)

subsection \<open>The ground-contact corrector\<close>

lemma fake_ground_transform_contact:
  assumes "earth_frame_position e (state s, dx_state s) ! 2 \<ge> ground_height s - 1 / 1000"
    and "earth_frame_velocity e (state s, dx_state s) ! 2
         + mat_vec (body2earth e (state s)) (body_frame_acceleration e (state s, dx_state s)) ! 2
           * ((real_of_int us / 1000) / 1000) \<ge> 0"
  shows "state (fake_ground_transform e us s)
           = (state s)[2 := 0, 3 := 0, 4 := 0, 5 := 0, 9 := 0, 10 := 0, 11 := 0, 6 := 0, 7 := 0, 8 := 0]"
    and "dx_state (fake_ground_transform e us s) = (dx_state s)[3 := 0, 4 := 0, 5 := 0, 5 := G_FORCE]"
  using assms by (simp_all add: fake_ground_transform_def Let_def segment_zero_def)

lemma fake_ground_transform_no_contact:
  assumes "\<not> (earth_frame_position e (state s, dx_state s) ! 2 \<ge> ground_height s - 1 / 1000
    \<and> earth_frame_velocity e (state s, dx_state s) ! 2
         + mat_vec (body2earth e (state s)) (body_frame_acceleration e (state s, dx_state s)) ! 2
           * ((real_of_int us / 1000) / 1000) \<ge> 0)"
  shows "fake_ground_transform e us s = s"
  unfolding fake_ground_transform_def Let_def by (rule if_not_P) (rule assms)

lemma fake_ground_transform_contact_values:
  assumes "earth_frame_position e (state s, dx_state s) ! 2 \<ge> ground_height s - 1 / 1000"
    and "earth_frame_velocity e (state s, dx_state s) ! 2
         + mat_vec (body2earth e (state s)) (body_frame_acceleration e (state s, dx_state s)) ! 2
           * ((real_of_int us / 1000) / 1000) \<ge> 0"
    and "length (state s) = 12" and "length (dx_state s) = 12"
  shows "state (fake_ground_transform e us s) = [state s ! 0, state s ! 1, 0, 0, 0, 0, 0, 0, 0, 0, 0, 0]"
    and "dx_state (fake_ground_transform e us s)
           = [dx_state s ! 0, dx_state s ! 1, dx_state s ! 2, 0, 0, G_FORCE,
              dx_state s ! 6, dx_state s ! 7, dx_state s ! 8, dx_state s ! 9, dx_state s ! 10, dx_state s ! 11]"
proof -
  from \<open>length (state s) = 12\<close> obtain x0 x1 x2 x3 x4 x5 x6 x7 x8 x9 x10 x11
    where x: "state s = [x0, x1, x2, x3, x4, x5, x6, x7, x8, x9, x10, x11]"
    by (auto simp: length_Suc_conv eval_nat_numeral)
  from \<open>length (dx_state s) = 12\<close> obtain d0 d1 d2 d3 d4 d5 d6 d7 d8 d9 d10 d11
    where d: "dx_state s = [d0, d1, d2, d3, d4, d5, d6, d7, d8, d9, d10, d11]"
    by (auto simp: length_Suc_conv eval_nat_numeral)
  show "state (fake_ground_transform e us s) = [state s ! 0, state s ! 1, 0, 0, 0, 0, 0, 0, 0, 0, 0, 0]"
    unfolding fake_ground_transform_contact(1) [OF assms(1,2)] x by (simp add: eval_nat_numeral)
  show "dx_state (fake_ground_transform e us s)
           = [dx_state s ! 0, dx_state s ! 1, dx_state s ! 2, 0, 0, G_FORCE,
              dx_state s ! 6, dx_state s ! 7, dx_state s ! 8, dx_state s ! 9, dx_state s ! 10, dx_state s ! 11]"
    unfolding fake_ground_transform_contact(2) [OF assms(1,2)] d by (simp add: eval_nat_numeral)
qed

text \<open>
  C1. Where the ground-contact condition holds the corrector zeroes \<open>x[3..5]\<close>,
  \<open>x[6..8]\<close> and \<open>x[9..11]\<close> and sets \<open>dx[3..5] = (0, 0, g)\<close>, and where it
  does not hold it leaves the drone unchanged (the three lemmas above). But it writes the
  literal 0 to \<open>x[2]\<close>, not the ground height that its own condition compares with:
  on a runway at \<open>ground_height = 10\<close>, a drone resting at \<open>z = 10\<close> is in contact
  and is moved to \<open>z = 0\<close>.
\<close>

theorem fake_ground_transform_snaps_to_literal_zero:
  "ground_height sunk_runway_drone = 10
   \<and> earth_frame_position still_world (state sunk_runway_drone, dx_state sunk_runway_drone) ! 2 = 10
   \<and> state (fake_ground_transform still_world 10000 sunk_runway_drone) ! 2 = 0"
  by (simp add: fake_ground_transform_def Let_def segment_zero_def sunk_runway_drone_def drone0_def
      still_world_def mat_vec_def eval_nat_numeral)

subsection \<open>Course over ground\<close>

text \<open>
  C3. The course over ground of the packed HIL_GPS frame is the initial value 0 of the
  local variable: \<open>hil_gps_msg\<close> never calls \<open>get_course_over_ground\<close>. For a drone
  with \<open>x[3] = 1\<close> and \<open>x[4] = 0\<close> the frame carries 0, while
  \<open>atan2(x[3], x[4]) * 180 / pi * 100\<close> is 9000.
\<close>

theorem hil_gps_course_over_ground_never_set:
  "(\<exists>p. hil_gps_msg still_world moving_drone = HIL_GPS 1 1 p \<and> gps_cog p = 0)
   \<and> get_course_over_ground moving_drone = 9000"
proof -
  have "get_course_over_ground moving_drone = 9000"
    by (simp add: get_course_over_ground_def moving_drone_def drone0_def atan2_def to_uint16_def
        cpp_trunc_def eval_nat_numeral)
  moreover have "system_id moving_drone = 1" "component_id moving_drone = 1"
    by (simp_all add: moving_drone_def drone0_def)
  ultimately show ?thesis using hil_gps_msg_shape [of still_world moving_drone] by simp
qed

subsection \<open>The cadence of SYSTEM_TIME\<close>

lemma system_time_cadence:
  assumes "connection_open s" "lockstep_gate s"
  shows "list_ex is_system_time (drop (length (enqueued s)) (enqueued (publish_state e s)))
           = (sys_time_throttle_counter s mod 1000 \<noteq> 0)"
  using publish_state_open_gate [OF assms, of e] by auto

text \<open>
  C4. With the relay open and the gate open, SYSTEM_TIME is among the frames of a tick
  exactly when the counter is not a multiple of 1000 (lemma \<open>system_time_cadence\<close>):
  at counter 1000 no SYSTEM_TIME is enqueued, at counter 1 one is.
\<close>

theorem system_time_sent_off_the_thousands:
  "\<not> list_ex is_system_time (enqueued (publish_state still_world (drone0\<lparr>sys_time_throttle_counter := 1000\<rparr>)))
   \<and> list_ex is_system_time (enqueued (publish_state still_world (drone0\<lparr>sys_time_throttle_counter := 1\<rparr>)))"
  using system_time_cadence [of "drone0\<lparr>sys_time_throttle_counter := 1000\<rparr>" still_world]
    system_time_cadence [of "drone0\<lparr>sys_time_throttle_counter := 1\<rparr>" still_world]
  by (simp add: drone0_def lockstep_gate_def)

subsection \<open>COMMAND_LONG\<close>

lemma process_command_long_message_corrector:
  "process_command_long_message command s
     = (if cl_command command = MAV_CMD_SET_MESSAGE_INTERVAL
        then s\<lparr>hil_state_quaternion_message_frequency := cl_param2 command,
               enqueued := enqueued s @ [command_ack_msg s command]\<rparr>
        else s\<lparr>enqueued := enqueued s @ [command_ack_msg s command]\<rparr>)"
  by (simp add: process_command_long_message_def Let_def enqueue_message_def command_ack_msg_def)

lemma command_ack_result_zero:
  "\<exists>p. command_ack_msg s command = COMMAND_ACK (system_id s) (component_id s) p
     \<and> ack_command p = cl_command command \<and> ack_result p = 0"
  by (simp add: command_ack_msg_def)

text \<open>
  C6. The drone with the corrector stores \<open>param2\<close> and enqueues one acknowledgement
  with result 0, for every command id (the two lemmas above). The drone without the
  corrector stores \<open>param1\<close>: for SET_MESSAGE_INTERVAL with \<open>param1 = 115\<close> and
  \<open>param2 = 50000\<close> its telemetry period becomes 115.
\<close>

theorem no_corrector_variant_takes_param1:
  "cl_command set_interval_50000 = MAV_CMD_SET_MESSAGE_INTERVAL
   \<and> cl_param2 set_interval_50000 = 50000
   \<and> hil_state_quaternion_message_frequency
        (process_command_long_message_no_corrector set_interval_50000 drone0) = 115
   \<and> hil_state_quaternion_message_frequency
        (process_command_long_message set_interval_50000 drone0) = 50000"
  by (simp add: process_command_long_message_no_corrector_def process_command_long_message_def
      Let_def enqueue_message_def set_interval_50000_def)

subsection \<open>The order of the phases of a tick\<close>

lemma update_eq:
  "update e us s
     = publish_state e (process_mavlink_messages (fake_ground_transform e us (DynamicObject_update e us s)))"
  by (simp add: update_def Let_def)

lemma update_spec_order_eq:
  "update_spec_order e us s
     = publish_state e (fake_ground_transform e us (DynamicObject_update e us (process_mavlink_messages s)))"
  by (simp add: update_spec_order_def Let_def)

lemma fake_ground_transform_x0: "state (fake_ground_transform e us s) ! 0 = state s ! 0"
  by (simp add: fake_ground_transform_def Let_def segment_zero_def)

text \<open>
  C9, as the claim states it, fails: the order of the specification (drain, integrate,
  correct, publish) and \<open>update\<close> differ. A thrust command waiting in the queue is
  seen by the integrator of the same tick in the order of the specification
  (\<open>x[0] = 1\<close> with the probing integrator) and is not seen by it in \<open>update\<close>
  (\<open>x[0] = 0\<close>).
\<close>

theorem update_integrates_before_draining:
  "state (update probe_world 10000 commanded_drone) ! 0 = 0
   \<and> state (update_spec_order probe_world 10000 commanded_drone) ! 0 = 1"
proof -
  have "thrust_propellers (process_mavlink_messages commanded_drone) = [1]"
    by (simp add: process_mavlink_messages_def commanded_drone_def process_hil_actuator_controls_def
        Let_def full_thrust_def eval_nat_numeral)
  moreover have "thrust_propellers commanded_drone = [0]"
    by (simp add: commanded_drone_def drone0_def)
  moreover have "length (state commanded_drone) = 12"
    by (simp add: commanded_drone_def drone0_def)
  moreover have "state commanded_drone ! 0 = 0"
    by (simp add: commanded_drone_def drone0_def)
  ultimately show ?thesis
    by (simp add: update_eq update_spec_order_eq fake_ground_transform_x0 DynamicObject_update_def
        probe_world_def still_world_def)
qed

text \<open>
  C9, amended. Within every tick of \<open>update\<close> the phases occur in the order:
  advance the dynamics by integration, apply the ground-contact corrector, drain the
  inbound message queue, publish outbound telemetry. So the state after the tick is the
  corrected result of integrating with the controls from before the drain, and the queue
  is empty afterwards.
\<close>

theorem update_phase_order:
  "update e us s
     = publish_state e (process_mavlink_messages (fake_ground_transform e us (DynamicObject_update e us s)))
   \<and> state (update e us s) = state (fake_ground_transform e us (DynamicObject_update e us s))
   \<and> dx_state (update e us s) = dx_state (fake_ground_transform e us (DynamicObject_update e us s))
   \<and> message_queue (update e us s) = []"
  by (simp add: update_eq)

subsection \<open>A closed relay\<close>

lemma update_closed_relay:
  assumes "\<not> connection_open s"
  shows "enqueued (update e us s) = enqueued s @ command_acks s (message_queue s)"
proof -
  let ?s2 = "fake_ground_transform e us (DynamicObject_update e us s)"
  have "publish_state e (process_mavlink_messages ?s2) = process_mavlink_messages ?s2"
    by (rule publish_state_closed_gate) (simp add: assms)
  moreover have "command_acks ?s2 (message_queue s) = command_acks s (message_queue s)"
    by (rule command_acks_cong) simp_all
  ultimately show ?thesis
    by (simp add: update_eq process_mavlink_messages_enqueued)
qed

text \<open>
  C5, as the claim states it, fails: with the relay closed and a COMMAND_LONG waiting in
  the queue, the tick enqueues the COMMAND_ACK on the relay.
\<close>

theorem closed_relay_still_acknowledges:
  "\<not> connection_open closed_relay_drone
   \<and> enqueued closed_relay_drone = []
   \<and> enqueued (update still_world 10000 closed_relay_drone) = [command_ack_msg closed_relay_drone set_interval_50000]"
proof -
  have c: "\<not> connection_open closed_relay_drone"
    by (simp add: closed_relay_drone_def)
  have "enqueued closed_relay_drone = []" "message_queue closed_relay_drone = [COMMAND_LONG set_interval_50000]"
    by (simp_all add: closed_relay_drone_def drone0_def)
  with c show ?thesis using update_closed_relay [OF c, of still_world 10000] by simp
qed

text \<open>
  C5, amended. In every tick during which the relay is closed, \<open>_publish_state\<close>
  enqueues nothing: the frames handed to \<open>enqueue_message\<close> in the tick are exactly
  the COMMAND_ACKs of the COMMAND_LONG frames drained in it, none of them telemetry, and
  the dynamics advance as in any tick (the state is the corrected result of the
  integration).
\<close>

theorem closed_relay_skips_telemetry:
  assumes "\<not> connection_open s"
  shows "enqueued (update e us s) = enqueued s @ command_acks s (message_queue s)
     \<and> \<not> list_ex is_telemetry (command_acks s (message_queue s))
     \<and> state (update e us s) = state (fake_ground_transform e us (DynamicObject_update e us s))
     \<and> dx_state (update e us s) = dx_state (fake_ground_transform e us (DynamicObject_update e us s))"
  using update_closed_relay [OF assms] command_acks_no_telemetry by (simp add: update_eq)

theorem closed_relay_skips_telemetry_witness:
  "\<not> connection_open closed_relay_drone
   \<and> enqueued (update still_world 10000 closed_relay_drone)
       = enqueued closed_relay_drone @ command_acks closed_relay_drone (message_queue closed_relay_drone)
   \<and> state (update still_world 10000 closed_relay_drone)
       = state (fake_ground_transform still_world 10000 (DynamicObject_update still_world 10000 closed_relay_drone))"
proof -
  have c: "\<not> connection_open closed_relay_drone"
    by (simp add: closed_relay_drone_def)
  from closed_relay_skips_telemetry [OF c, of still_world 10000] c show ?thesis by simp
qed

subsection \<open>The lockstep gate\<close>

lemma foldl_handle_mavlink_message:
  "foldl (\<lambda>s m. handle_mavlink_message m s) s ms = s\<lparr>message_queue := message_queue s @ ms\<rparr>"
  by (induction ms arbitrary: s) (simp_all add: handle_mavlink_message_def)

lemma arrive_eq:
  "arrive i s = s\<lparr>clock_time_us := ti_now i, connection_open := ti_open i,
                  message_queue := message_queue s @ ti_arrived i\<rparr>"
  by (simp add: arrive_def foldl_handle_mavlink_message)


lemma at_gate_simps [simp]:
  "connection_open (at_gate e i s) = ti_open i"
  "message_queue (at_gate e i s) = []"
  by (simp_all add: at_gate_def arrive_eq)











end
